theory Spec2Isabelle
  imports Complex_Main "HOL-Library.Option_ord" "HOL-Library.Log_Nat"
begin

chapter \<open>The product catalogue queries of LowestPrice-BE\<close>

text \<open>
  A shallow embedding of \<open>ProductRepository\<close> (src/product/product.repository.ts) and of
  the cursor coercion of \<open>ProductController\<close> (src/product/product.controller.ts), with
  the store behind the Prisma client modelled as lists of rows.
\<close>

section \<open>Data model\<close>

text \<open>
  The rows of the three tables the repository layer reads. The Prisma schema is not part
  of the sources, so the column types follow the data model of the specification: the
  discount rate is the only nullable column of a product (\<open>None\<close> is SQL \<open>NULL\<close>), and
  it is a rational number, which covers an integer, a decimal and a finite float column
  alike. \<open>ProductCategory\<close> holds the categories joined to the product through the
  join table. The remaining columns (marketplace identifiers, image, URLs, timestamps)
  are only copied by the \<open>select\<close> projections and are left out. A subscription row
  is the pair of a user and a product.
\<close>

record category =
  categoryId :: int
  categoryName :: string

record product =
  productId :: int
  productName :: string
  isOutOfStock :: bool
  originalPrice :: int
  currentPrice :: int
  discountRate :: "rat option"
  cardDiscount :: int
  ProductCategory :: "category list"

record userProduct =
  UserId :: int
  ProductId :: int

text \<open>The store behind \<open>this.prisma\<close>: each table in the store's own row order.\<close>

record PrismaClient =
  product_rows :: "product list"
  category_rows :: "category list"
  userProduct_rows :: "userProduct list"

text \<open>
  A JavaScript number is \<open>NaN\<close>, an infinity or a finite binary64 value, kept as the
  rational it denotes; \<open>+0\<close> and \<open>-0\<close> are both \<open>Finite 0\<close>.

  The values a JavaScript argument can hold at run time. The parameter
  \<open>isOutOfStock: boolean\<close> is only typed at compile time; the comparison
  \<open>isOutOfStock === false\<close> is decided on the run-time value.
\<close>

datatype jsnumber = NaN | Finite rat | PosInfinity | NegInfinity

datatype jsvalue =
    JUndefined
  | JNull
  | JBoolean bool
  | JNumber jsnumber
  | JString string

fun strict_equals_false :: "jsvalue \<Rightarrow> bool" where
  "strict_equals_false (JBoolean b) = (\<not> b)"
| "strict_equals_false _ = False"

datatype exception =
    NotFoundCategoryException
  | NotFoundCategoryFilterException
  | NotFoundProductException

section \<open>The query interface of the store\<close>

text \<open>
  A \<open>where\<close> object is the list of its keys, all of which must hold; \<open>[]\<close> is the
  empty object \<open>{}\<close>. Only the keys the repository writes are modelled.
\<close>

datatype whereKey =
    isOutOfStock_is bool
  | discountRate_is "rat option"
  | ProductCategory_some_Category_categoryName string
  | NOT "whereKey list"
  | AND "whereKey list list"

datatype orderField = by_discountRate | by_currentPrice

datatype sortOrder = asc | desc

record findManyArgs =
  whereCondition :: "whereKey list"
  orderBy :: "(orderField \<times> sortOrder) option"
  take_limit :: "nat option"

text \<open>The queries sent to the store, in the order they are awaited.\<close>

datatype query =
    category_findUnique string
  | product_findMany findManyArgs
  | product_findUnique int
  | userProduct_findFirst int int

text \<open>
  Whether a row satisfies a key. The store evaluates \<open>NOT\<close> in SQL's three-valued
  logic, where \<open>NOT {discountRate: 0}\<close> alone is unknown on a \<open>NULL\<close> discount rate;
  the only query that uses it conjoins \<open>NOT {discountRate: null}\<close>, so the rows selected
  are the same as under the two-valued reading below.
\<close>

fun holds :: "whereKey \<Rightarrow> product \<Rightarrow> bool" where
  "holds (isOutOfStock_is b) p = (isOutOfStock p = b)"
| "holds (discountRate_is d) p = (discountRate p = d)"
| "holds (ProductCategory_some_Category_categoryName n) p =
     list_ex (\<lambda>c. categoryName c = n) (ProductCategory p)"
| "holds (NOT ks) p = (\<not> list_all (\<lambda>k. holds k p) ks)"
| "holds (AND os) p = list_all (\<lambda>ks. list_all (\<lambda>k. holds k p) ks) os"

definition matches :: "whereKey list \<Rightarrow> product \<Rightarrow> bool" where
  "matches ks p = list_all (\<lambda>k. holds k p) ks"

text \<open>
  \<open>orderBy\<close>: a stable insertion sort on the chosen column, so that ties stay in the
  store's row order. \<open>NULL\<close> sorts as the smallest value; no query of the repository sorts
  rows with a \<open>NULL\<close> key.
\<close>

fun precedes :: "orderField \<times> sortOrder \<Rightarrow> product \<Rightarrow> product \<Rightarrow> bool" where
  "precedes (by_discountRate, asc) p q = (discountRate p \<le> discountRate q)"
| "precedes (by_discountRate, desc) p q = (discountRate q \<le> discountRate p)"
| "precedes (by_currentPrice, asc) p q = (currentPrice p \<le> currentPrice q)"
| "precedes (by_currentPrice, desc) p q = (currentPrice q \<le> currentPrice p)"

fun insert_by :: "('a \<Rightarrow> 'a \<Rightarrow> bool) \<Rightarrow> 'a \<Rightarrow> 'a list \<Rightarrow> 'a list" where
  "insert_by le x [] = [x]"
| "insert_by le x (y # ys) = (if le x y then x # y # ys else y # insert_by le x ys)"

definition sort_by :: "('a \<Rightarrow> 'a \<Rightarrow> bool) \<Rightarrow> 'a list \<Rightarrow> 'a list" where
  "sort_by le xs = foldr (insert_by le) xs []"

definition ordered :: "(orderField \<times> sortOrder) option \<Rightarrow> product list \<Rightarrow> product list" where
  "ordered ob ps = (case ob of None \<Rightarrow> ps | Some spec \<Rightarrow> sort_by (precedes spec) ps)"

definition limited :: "nat option \<Rightarrow> product list \<Rightarrow> product list" where
  "limited cap ps = (case cap of None \<Rightarrow> ps | Some n \<Rightarrow> take n ps)"

definition prisma_product_findMany :: "PrismaClient \<Rightarrow> findManyArgs \<Rightarrow> product list" where
  "prisma_product_findMany db args =
     limited (take_limit args)
       (ordered (orderBy args) (filter (matches (whereCondition args)) (product_rows db)))"

definition prisma_product_findUnique :: "PrismaClient \<Rightarrow> int \<Rightarrow> product option" where
  "prisma_product_findUnique db pid = find (\<lambda>p. productId p = pid) (product_rows db)"

definition prisma_category_findUnique :: "PrismaClient \<Rightarrow> string \<Rightarrow> category option" where
  "prisma_category_findUnique db n = find (\<lambda>c. categoryName c = n) (category_rows db)"

definition prisma_userProduct_findFirst ::
  "PrismaClient \<Rightarrow> int \<Rightarrow> int \<Rightarrow> userProduct option" where
  "prisma_userProduct_findFirst db uid pid =
     find (\<lambda>r. UserId r = uid \<and> ProductId r = pid) (userProduct_rows db)"

section \<open>ProductRepository\<close>

text \<open>
  Every method returns its outcome (the exception thrown, or the value returned) together
  with the queries it sent to the store. \<open>userId\<close> is \<open>None\<close> for an anonymous caller
  (the controller passes \<open>null\<close>). \<open>product_wheres\<close> reads the \<open>where\<close> objects of the
  product queries off such a list.
\<close>

fun product_wheres :: "query list \<Rightarrow> whereKey list list" where
  "product_wheres [] = []"
| "product_wheres (product_findMany args # qs) = whereCondition args # product_wheres qs"
| "product_wheres (q # qs) = product_wheres qs"

definition getAllProducts_where :: "jsvalue \<Rightarrow> whereKey list" where
  "getAllProducts_where isOutOfStockArg =
     (if strict_equals_false isOutOfStockArg then [isOutOfStock_is False] else [])"

definition getAllProducts ::
  "PrismaClient \<Rightarrow> int option \<Rightarrow> jsvalue \<Rightarrow> (exception + product list) \<times> query list" where
  "getAllProducts db userId isOutOfStockArg =
     (let args = \<lparr>whereCondition = getAllProducts_where isOutOfStockArg,
                  orderBy = None, take_limit = None\<rparr>;
          products = prisma_product_findMany db args
      in (Inr products, [product_findMany args]))"

definition top10_args :: findManyArgs where
  "top10_args =
     \<lparr>whereCondition =
        [AND [[NOT [discountRate_is (Some 0)]],
              [NOT [discountRate_is None]],
              [isOutOfStock_is False]]],
      orderBy = Some (by_discountRate, desc),
      take_limit = Some 10\<rparr>"

definition getTop10Products ::
  "PrismaClient \<Rightarrow> int option \<Rightarrow> (exception + product list) \<times> query list" where
  "getTop10Products db userId =
     (let products = prisma_product_findMany db top10_args
      in (if length products = 0 then Inl NotFoundProductException else Inr products,
          [product_findMany top10_args]))"

definition baseCondition :: "string \<Rightarrow> whereKey list" where
  "baseCondition cname =
     [ProductCategory_some_Category_categoryName cname, NOT [discountRate_is None]]"

definition additionalCondition :: "jsvalue \<Rightarrow> whereKey list list" where
  "additionalCondition isOutOfStockArg =
     (if strict_equals_false isOutOfStockArg then [[isOutOfStock_is False]] else [])"

definition category_where :: "string \<Rightarrow> jsvalue \<Rightarrow> whereKey list" where
  "category_where cname isOutOfStockArg =
     [AND (baseCondition cname # additionalCondition isOutOfStockArg)]"

definition getProductsByCategory ::
  "PrismaClient \<Rightarrow> string \<Rightarrow> int option \<Rightarrow> jsvalue
     \<Rightarrow> (exception + product list) \<times> query list" where
  "getProductsByCategory db cname userId isOutOfStockArg =
     (case prisma_category_findUnique db cname of
        None \<Rightarrow> (Inl NotFoundCategoryException, [category_findUnique cname])
      | Some categoryExists \<Rightarrow>
          (let args = \<lparr>whereCondition = category_where cname isOutOfStockArg,
                       orderBy = None, take_limit = None\<rparr>;
               products = prisma_product_findMany db args
           in (if length products = 0 then Inl NotFoundProductException else Inr products,
               [category_findUnique cname, product_findMany args])))"

text \<open>The \<open>switch (filter)\<close> of \<open>getProductsByCategoryAndFilter\<close>.\<close>

definition filter_orderBy :: "string \<Rightarrow> exception + orderField \<times> sortOrder" where
  "filter_orderBy token =
     (if token = ''discountRate_desc'' then Inr (by_discountRate, desc)
      else if token = ''price_asc'' then Inr (by_currentPrice, asc)
      else if token = ''price_desc'' then Inr (by_currentPrice, desc)
      else Inl NotFoundCategoryFilterException)"

definition getProductsByCategoryAndFilter ::
  "PrismaClient \<Rightarrow> string \<Rightarrow> string \<Rightarrow> int option \<Rightarrow> jsvalue
     \<Rightarrow> (exception + product list) \<times> query list" where
  "getProductsByCategoryAndFilter db cname token userId isOutOfStockArg =
     (case prisma_category_findUnique db cname of
        None \<Rightarrow> (Inl NotFoundCategoryException, [category_findUnique cname])
      | Some categoryExists \<Rightarrow>
          (case filter_orderBy token of
             Inl e \<Rightarrow> (Inl e, [category_findUnique cname])
           | Inr ob \<Rightarrow>
               (let args = \<lparr>whereCondition = category_where cname isOutOfStockArg,
                            orderBy = Some ob, take_limit = None\<rparr>;
                    products = prisma_product_findMany db args
                in (if length products = 0 then Inl NotFoundProductException
                    else Inr products,
                    [category_findUnique cname, product_findMany args]))))"

definition getProductDetail ::
  "PrismaClient \<Rightarrow> int \<Rightarrow> int option \<Rightarrow> (exception + product) \<times> query list" where
  "getProductDetail db pid userId =
     (case prisma_product_findUnique db pid of
        None \<Rightarrow> (Inl NotFoundProductException, [product_findUnique pid])
      | Some p \<Rightarrow> (Inr p, [product_findUnique pid]))"

definition checkNotification ::
  "PrismaClient \<Rightarrow> int \<Rightarrow> int \<Rightarrow> userProduct option \<times> query list" where
  "checkNotification db pid uid =
     (prisma_userProduct_findFirst db uid pid, [userProduct_findFirst uid pid])"

section \<open>ProductService: the pagination cursor\<close>

text \<open>
  Modelled from the spec: \<open>ProductService.getProductsByCategory\<close> (product.service.ts),
  which receives the cursor \<open>lastId\<close> from the controller, is not among the sources, and
  the repository method takes no cursor. The specification (4.3, \<open>listByCategory\<close>) says:
  validate that the category exists, build the predicate of 4.2, apply the cursor
  constraint if a cursor is present (identifiers strictly after the cursor), and fail
  with \<open>NotFoundProduct\<close> if the result is empty.
\<close>

definition listByCategory ::
  "PrismaClient \<Rightarrow> string \<Rightarrow> int option \<Rightarrow> int option \<Rightarrow> jsvalue
     \<Rightarrow> exception + product list" where
  "listByCategory db cname userId cursor includeOutOfStock =
     (case prisma_category_findUnique db cname of
        None \<Rightarrow> Inl NotFoundCategoryException
      | Some c \<Rightarrow>
          (let rows = filter (matches (category_where cname includeOutOfStock)) (product_rows db);
               page = (case cursor of
                         None \<Rightarrow> rows
                       | Some after \<Rightarrow> filter (\<lambda>p. after < productId p) rows)
           in if page = [] then Inl NotFoundProductException else Inr page))"

section \<open>ProductController: coercion of the cursor\<close>

text \<open>
  \<open>Number(lastIdString)\<close> on a query-string value: the \<open>StringToNumber\<close> operation of
  ECMAScript. Strings are ASCII here (the white space trimmed is TAB, LF, VT, FF, CR and
  SP). The literal's mathematical value is rounded to the nearest binary64 value, ties to
  even, as the engine does.
\<close>

definition is_StrWhiteSpaceChar :: "char \<Rightarrow> bool" where
  "is_StrWhiteSpaceChar c = ((of_char c :: nat) \<in> {9, 10, 11, 12, 13, 32})"

definition trim :: "string \<Rightarrow> string" where
  "trim s = rev (dropWhile is_StrWhiteSpaceChar (rev (dropWhile is_StrWhiteSpaceChar s)))"

definition digit_value :: "char \<Rightarrow> nat option" where
  "digit_value c =
     (let n = (of_char c :: nat)
      in if 48 \<le> n \<and> n \<le> 57 then Some (n - 48)
         else if 97 \<le> n \<and> n \<le> 102 then Some (n - 87)
         else if 65 \<le> n \<and> n \<le> 70 then Some (n - 55)
         else None)"

definition is_digit :: "nat \<Rightarrow> char \<Rightarrow> bool" where
  "is_digit base c = (case digit_value c of None \<Rightarrow> False | Some d \<Rightarrow> d < base)"

definition digits_value :: "nat \<Rightarrow> string \<Rightarrow> int" where
  "digits_value base ds =
     foldl (\<lambda>acc c. acc * int base + (case digit_value c of None \<Rightarrow> 0 | Some d \<Rightarrow> int d))
       0 ds"

definition pow10 :: "int \<Rightarrow> rat" where
  "pow10 e = (if 0 \<le> e then 10 ^ nat e else 1 / 10 ^ nat (- e))"

definition pow2 :: "int \<Rightarrow> rat" where
  "pow2 e = (if 0 \<le> e then 2 ^ nat e else 1 / 2 ^ nat (- e))"

text \<open>\<open>SignedInteger\<close>: an optional sign and at least one decimal digit.\<close>

definition SignedInteger :: "string \<Rightarrow> int option" where
  "SignedInteger s =
     (let (neg, ds) = (case s of
                         c # r \<Rightarrow> if c = CHR ''-'' then (True, r)
                                  else if c = CHR ''+'' then (False, r) else (False, s)
                       | [] \<Rightarrow> (False, s))
      in if ds \<noteq> [] \<and> list_all (is_digit 10) ds
         then Some (if neg then - digits_value 10 ds else digits_value 10 ds)
         else None)"

text \<open>
  The digits of a decimal literal before its exponent: \<open>DecimalDigits . DecimalDigits?\<close>,
  \<open>. DecimalDigits\<close> or \<open>DecimalDigits\<close>.
\<close>

definition decimal_mantissa :: "string \<Rightarrow> rat option" where
  "decimal_mantissa m =
     (let ip = takeWhile (\<lambda>c. c \<noteq> CHR ''.'') m;
          r = dropWhile (\<lambda>c. c \<noteq> CHR ''.'') m
      in case r of
           [] \<Rightarrow> if ip \<noteq> [] \<and> list_all (is_digit 10) ip
                 then Some (of_int (digits_value 10 ip)) else None
         | dot # fp \<Rightarrow>
             if (ip \<noteq> [] \<or> fp \<noteq> []) \<and> list_all (is_digit 10) ip \<and> list_all (is_digit 10) fp
             then Some (of_int (digits_value 10 (ip @ fp)) * pow10 (- int (length fp)))
             else None)"

text \<open>\<open>StrUnsignedDecimalLiteral\<close> without \<open>Infinity\<close>: its mathematical value.\<close>

definition unsigned_decimal :: "string \<Rightarrow> rat option" where
  "unsigned_decimal s =
     (let is_e = (\<lambda>c. c = CHR ''e'' \<or> c = CHR ''E'');
          m = takeWhile (\<lambda>c. \<not> is_e c) s;
          r = dropWhile (\<lambda>c. \<not> is_e c) s
      in case decimal_mantissa m of
           None \<Rightarrow> None
         | Some v \<Rightarrow>
             (case r of
                [] \<Rightarrow> Some v
              | e # ex \<Rightarrow> (case SignedInteger ex of
                             None \<Rightarrow> None
                           | Some k \<Rightarrow> Some (v * pow10 k))))"

text \<open>\<open>NonDecimalIntegerLiteral\<close>: \<open>0x\<close>, \<open>0o\<close> or \<open>0b\<close> and at least one digit of the base.\<close>

definition non_decimal_base :: "string \<Rightarrow> nat option" where
  "non_decimal_base s =
     (case s of
        z # k # r \<Rightarrow>
          if z \<noteq> CHR ''0'' then None
          else if k = CHR ''x'' \<or> k = CHR ''X'' then Some 16
          else if k = CHR ''o'' \<or> k = CHR ''O'' then Some 8
          else if k = CHR ''b'' \<or> k = CHR ''B'' then Some 2
          else None
      | _ \<Rightarrow> None)"

definition floor_log2 :: "rat \<Rightarrow> int" where
  "floor_log2 q =
     (let (n, d) = quotient_of q;
          b = int (floorlog 2 (nat n)) - int (floorlog 2 (nat d))
      in if pow2 b \<le> q then b else b - 1)"

definition round_half_even :: "rat \<Rightarrow> int" where
  "round_half_even x =
     (let f = \<lfloor>x\<rfloor>; r = x - of_int f
      in if r < 1 / 2 then f
         else if 1 / 2 < r then f + 1
         else if even f then f else f + 1)"

definition RoundMVResult :: "rat \<Rightarrow> jsnumber" where
  "RoundMVResult q =
     (if q = 0 then Finite 0
      else
        (let a = \<bar>q\<bar>;
             e = max (floor_log2 a) (- 1022);
             ulp = pow2 (e - 52);
             r = of_int (round_half_even (a / ulp)) * ulp
         in if pow2 1024 \<le> r then (if q < 0 then NegInfinity else PosInfinity)
            else Finite (if q < 0 then - r else r)))"

definition StrUnsignedDecimalLiteral :: "bool \<Rightarrow> string \<Rightarrow> jsnumber" where
  "StrUnsignedDecimalLiteral neg s =
     (if s = ''Infinity'' then (if neg then NegInfinity else PosInfinity)
      else case unsigned_decimal s of
             None \<Rightarrow> NaN
           | Some v \<Rightarrow> RoundMVResult (if neg then - v else v))"

definition StringToNumber :: "string \<Rightarrow> jsnumber" where
  "StringToNumber str =
     (let s = trim str
      in if s = [] then Finite 0
         else case non_decimal_base s of
                Some base \<Rightarrow>
                  (let ds = drop 2 s
                   in if ds \<noteq> [] \<and> list_all (is_digit base) ds
                      then RoundMVResult (of_int (digits_value base ds)) else NaN)
              | None \<Rightarrow>
                  if hd s = CHR ''-'' then StrUnsignedDecimalLiteral True (tl s)
                  else if hd s = CHR ''+'' then StrUnsignedDecimalLiteral False (tl s)
                  else StrUnsignedDecimalLiteral False s)"

text \<open>\<open>Number(v)\<close> for a query parameter: \<open>None\<close> is an absent parameter (\<open>undefined\<close>).\<close>

definition Number_js :: "string option \<Rightarrow> jsnumber" where
  "Number_js v = (case v of None \<Rightarrow> NaN | Some str \<Rightarrow> StringToNumber str)"

text \<open>\<open>ToBoolean\<close> of a number: \<open>NaN\<close> and the zeros are falsy.\<close>

fun ToBoolean :: "jsnumber \<Rightarrow> bool" where
  "ToBoolean NaN = False"
| "ToBoolean (Finite q) = (q \<noteq> 0)"
| "ToBoolean PosInfinity = True"
| "ToBoolean NegInfinity = True"

fun Number_isInteger :: "jsnumber \<Rightarrow> bool" where
  "Number_isInteger (Finite q) = (of_int \<lfloor>q\<rfloor> = q)"
| "Number_isInteger _ = False"

text \<open>
  \<open>const lastId = Number(lastIdString) ? Number(lastIdString) : null\<close>, in both
  category routes of the controller.
\<close>

definition lastId :: "string option \<Rightarrow> jsnumber option" where
  "lastId lastIdString =
     (if ToBoolean (Number_js lastIdString) then Some (Number_js lastIdString) else None)"

section \<open>Example stores\<close>

definition shoes :: category where
  "shoes = \<lparr>categoryId = 1, categoryName = ''shoes''\<rparr>"

definition bags :: category where
  "bags = \<lparr>categoryId = 2, categoryName = ''bags''\<rparr>"

definition sneaker :: product where
  "sneaker = \<lparr>productId = 1, productName = ''sneaker'', isOutOfStock = False,
     originalPrice = 1000, currentPrice = 900, discountRate = Some 10, cardDiscount = 0,
     ProductCategory = [shoes]\<rparr>"

definition sandal :: product where
  "sandal = \<lparr>productId = 2, productName = ''sandal'', isOutOfStock = False,
     originalPrice = 500, currentPrice = 500, discountRate = None, cardDiscount = 0,
     ProductCategory = [shoes]\<rparr>"

definition boot :: product where
  "boot = \<lparr>productId = 3, productName = ''boot'', isOutOfStock = True,
     originalPrice = 2000, currentPrice = 1000, discountRate = Some 50, cardDiscount = 0,
     ProductCategory = [shoes]\<rparr>"

definition slipper :: product where
  "slipper = \<lparr>productId = 4, productName = ''slipper'', isOutOfStock = False,
     originalPrice = 300, currentPrice = 300, discountRate = Some 0, cardDiscount = 0,
     ProductCategory = [shoes]\<rparr>"

definition alert :: userProduct where
  "alert = \<lparr>UserId = 7, ProductId = 1\<rparr>"

definition other_alert :: userProduct where
  "other_alert = \<lparr>UserId = 8, ProductId = 2\<rparr>"

definition shop :: PrismaClient where
  "shop = \<lparr>product_rows = [sneaker, sandal, boot, slipper],
            category_rows = [shoes, bags],
            userProduct_rows = [alert, other_alert]\<rparr>"

section \<open>Properties of the store queries\<close>

lemma strict_equals_false_iff: "strict_equals_false v \<longleftrightarrow> v = JBoolean False"
  by (cases v) auto

lemma set_insert_by: "set (insert_by le x xs) = insert x (set xs)"
  by (induction xs) auto

lemma set_sort_by: "set (sort_by le xs) = set xs"
  by (induction xs) (simp_all add: sort_by_def set_insert_by)

lemma length_insert_by: "length (insert_by le x xs) = Suc (length xs)"
  by (induction xs) auto

lemma length_sort_by: "length (sort_by le xs) = length xs"
  by (induction xs) (simp_all add: sort_by_def length_insert_by)

lemma sorted_insert_by:
  assumes total: "\<And>a b. le a b \<or> le b a"
    and trans: "\<And>a b c. le a b \<Longrightarrow> le b c \<Longrightarrow> le a c"
    and sorted: "sorted_wrt le xs"
  shows "sorted_wrt le (insert_by le x xs)"
  using sorted
proof (induction xs)
  case Nil
  then show ?case by simp
next
  case (Cons y ys)
  show ?case
  proof (cases "le x y")
    case True
    from Cons.prems have "\<forall>z\<in>set ys. le y z" by simp
    with True trans have "\<forall>z\<in>set ys. le x z" by blast
    with True Cons.prems show ?thesis by simp
  next
    case False
    with total have "le y x" by blast
    with False Cons show ?thesis by (auto simp: set_insert_by)
  qed
qed

lemma sorted_sort_by:
  assumes "\<And>a b. le a b \<or> le b a"
    and "\<And>a b c. le a b \<Longrightarrow> le b c \<Longrightarrow> le a c"
  shows "sorted_wrt le (sort_by le xs)"
proof (induction xs)
  case Nil
  show ?case by (simp add: sort_by_def)
next
  case (Cons x xs)
  have "sort_by le (x # xs) = insert_by le x (sort_by le xs)"
    by (simp add: sort_by_def)
  with Cons sorted_insert_by [of le "sort_by le xs" x] assms show ?case
    by simp
qed

lemma precedes_total: "precedes spec p q \<or> precedes spec q p"
proof -
  obtain f d where "spec = (f, d)" by (cases spec)
  then show ?thesis by (cases f; cases d) auto
qed

lemma precedes_trans: "precedes spec p q \<Longrightarrow> precedes spec q r \<Longrightarrow> precedes spec p r"
proof -
  assume a: "precedes spec p q" "precedes spec q r"
  obtain f d where "spec = (f, d)" by (cases spec)
  with a show ?thesis by (cases f; cases d) auto
qed

lemma sorted_ordered: "sorted_wrt (precedes spec) (ordered (Some spec) ps)"
proof -
  have "sorted_wrt (precedes spec) (sort_by (precedes spec) ps)"
  proof (rule sorted_sort_by)
    show "precedes spec a b \<or> precedes spec b a" for a b by (rule precedes_total)
    show "precedes spec a b \<Longrightarrow> precedes spec b c \<Longrightarrow> precedes spec a c" for a b c
      by (rule precedes_trans)
  qed
  then show ?thesis by (simp add: ordered_def)
qed

lemma set_ordered: "set (ordered ob ps) = set ps"
  by (cases ob) (simp_all add: ordered_def set_sort_by)

lemma length_ordered: "length (ordered ob ps) = length ps"
  by (cases ob) (simp_all add: ordered_def length_sort_by)

lemma set_limited: "set (limited cap ps) \<subseteq> set ps"
  by (cases cap) (auto simp: limited_def dest: in_set_takeD)

lemma limited_None: "limited None ps = ps"
  by (simp add: limited_def)

lemma findMany_member:
  "p \<in> set (prisma_product_findMany db args) \<Longrightarrow>
     p \<in> set (product_rows db) \<and> matches (whereCondition args) p"
proof -
  assume "p \<in> set (prisma_product_findMany db args)"
  then have "p \<in> set (ordered (orderBy args)
      (filter (matches (whereCondition args)) (product_rows db)))"
    unfolding prisma_product_findMany_def using set_limited by blast
  then show ?thesis by (simp add: set_ordered)
qed

lemma findMany_unlimited:
  "take_limit args = None \<Longrightarrow>
     set (prisma_product_findMany db args) =
       {p \<in> set (product_rows db). matches (whereCondition args) p}"
  by (auto simp: prisma_product_findMany_def set_ordered limited_None)

lemma findMany_empty_iff:
  "prisma_product_findMany db args = [] \<longleftrightarrow>
     take_limit args = Some 0 \<or> (\<forall>p \<in> set (product_rows db). \<not> matches (whereCondition args) p)"
proof -
  let ?rows = "ordered (orderBy args) (filter (matches (whereCondition args)) (product_rows db))"
  have "?rows = [] \<longleftrightarrow> (\<forall>p \<in> set (product_rows db). \<not> matches (whereCondition args) p)"
  proof -
    have "?rows = [] \<longleftrightarrow> set ?rows = {}" by simp
    also have "\<dots> \<longleftrightarrow> set (filter (matches (whereCondition args)) (product_rows db)) = {}"
      by (simp only: set_ordered)
    also have "\<dots> \<longleftrightarrow> (\<forall>p \<in> set (product_rows db). \<not> matches (whereCondition args) p)"
      by (auto simp: filter_empty_conv)
    finally show ?thesis .
  qed
  then show ?thesis
    by (cases "take_limit args") (auto simp: prisma_product_findMany_def limited_def)
qed

lemma matches_category_where:
  "matches (category_where cname flag) p \<longleftrightarrow>
     list_ex (\<lambda>c. categoryName c = cname) (ProductCategory p) \<and> discountRate p \<noteq> None \<and>
     (flag = JBoolean False \<longrightarrow> \<not> isOutOfStock p)"
  by (simp add: matches_def category_where_def baseCondition_def additionalCondition_def
      strict_equals_false_iff)

lemma matches_getAllProducts_where:
  "matches (getAllProducts_where flag) p \<longleftrightarrow> (flag = JBoolean False \<longrightarrow> \<not> isOutOfStock p)"
  by (simp add: matches_def getAllProducts_where_def strict_equals_false_iff)

lemma matches_top10:
  "matches (whereCondition top10_args) p \<longleftrightarrow>
     discountRate p \<noteq> Some 0 \<and> discountRate p \<noteq> None \<and> \<not> isOutOfStock p"
  by (simp add: matches_def top10_args_def)

lemma category_findUnique_None_iff:
  "prisma_category_findUnique db cname = None \<longleftrightarrow> cname \<notin> categoryName ` set (category_rows db)"
  by (auto simp: prisma_category_findUnique_def find_None_iff)

section \<open>The claims about the repository\<close>

lemmas shop_defs = shop_def sneaker_def sandal_def boot_def slipper_def shoes_def bags_def
  alert_def other_alert_def

lemma getProductsByCategory_Inr:
  assumes "fst (getProductsByCategory db cname u flag) = Inr ps"
  shows "prisma_category_findUnique db cname \<noteq> None \<and> ps \<noteq> [] \<and>
    ps = prisma_product_findMany db
      \<lparr>whereCondition = category_where cname flag, orderBy = None, take_limit = None\<rparr>"
  using assms
  by (auto simp: getProductsByCategory_def Let_def split: option.splits if_splits)

lemma getProductsByCategoryAndFilter_Inr:
  assumes "fst (getProductsByCategoryAndFilter db cname token u flag) = Inr ps"
  shows "\<exists>ob. filter_orderBy token = Inr ob \<and>
    prisma_category_findUnique db cname \<noteq> None \<and> ps \<noteq> [] \<and>
    ps = prisma_product_findMany db
      \<lparr>whereCondition = category_where cname flag, orderBy = Some ob, take_limit = None\<rparr>"
  using assms
  by (auto simp: getProductsByCategoryAndFilter_def Let_def
      split: option.splits sum.splits if_splits)

lemma category_listing_member:
  assumes "p \<in> set (prisma_product_findMany db
      \<lparr>whereCondition = category_where cname flag, orderBy = ob, take_limit = None\<rparr>)"
  shows "p \<in> set (product_rows db) \<and>
    list_ex (\<lambda>c. categoryName c = cname) (ProductCategory p) \<and> discountRate p \<noteq> None \<and>
    (flag = JBoolean False \<longrightarrow> \<not> isOutOfStock p)"
  using findMany_member [OF assms] by (simp add: matches_category_where)

text \<open>
  C1. A product whose discount rate is \<open>NULL\<close> is in no result of the two
  category-scoped listings, \<open>getProductsByCategory\<close> and
  \<open>getProductsByCategoryAndFilter\<close>, whatever the stock-visibility argument is: the base
  condition always carries \<open>NOT {discountRate: null}\<close>.
\<close>

theorem null_discount_rate_excluded:
  "discountRate p = None \<Longrightarrow>
     (\<forall>ps. fst (getProductsByCategory db cname userId flag) = Inr ps \<longrightarrow> p \<notin> set ps) \<and>
     (\<forall>ps. fst (getProductsByCategoryAndFilter db cname token userId flag) = Inr ps
        \<longrightarrow> p \<notin> set ps)"
proof (intro conjI allI impI)
  fix ps
  assume null: "discountRate p = None"
    and res: "fst (getProductsByCategory db cname userId flag) = Inr ps"
  show "p \<notin> set ps"
  proof
    assume "p \<in> set ps"
    with getProductsByCategory_Inr [OF res] category_listing_member [of p db cname flag None]
    have "discountRate p \<noteq> None" by simp
    with null show False by simp
  qed
next
  fix ps
  assume null: "discountRate p = None"
    and res: "fst (getProductsByCategoryAndFilter db cname token userId flag) = Inr ps"
  from getProductsByCategoryAndFilter_Inr [OF res] obtain ob where
    ps: "ps = prisma_product_findMany db
      \<lparr>whereCondition = category_where cname flag, orderBy = Some ob, take_limit = None\<rparr>"
    by blast
  show "p \<notin> set ps"
  proof
    assume "p \<in> set ps"
    with ps category_listing_member [of p db cname flag "Some ob"]
    have "discountRate p \<noteq> None" by simp
    with null show False by simp
  qed
qed

lemma shop_shoes_listing:
  "fst (getProductsByCategory shop ''shoes'' None JUndefined) = Inr [sneaker, boot, slipper]"
  by (simp add: getProductsByCategory_def prisma_category_findUnique_def
      prisma_product_findMany_def limited_def ordered_def matches_def category_where_def
      baseCondition_def additionalCondition_def shop_defs)

lemma shop_shoes_price_desc:
  "fst (getProductsByCategoryAndFilter shop ''shoes'' ''price_desc'' None JUndefined) =
     Inr [boot, sneaker, slipper]"
  by (simp add: getProductsByCategoryAndFilter_def prisma_category_findUnique_def
      prisma_product_findMany_def limited_def ordered_def matches_def category_where_def
      baseCondition_def additionalCondition_def filter_orderBy_def sort_by_def shop_defs)

theorem null_discount_rate_excluded_witness:
  "discountRate sandal = None \<and> sandal \<in> set (product_rows shop) \<and>
   fst (getProductsByCategory shop ''shoes'' None JUndefined) = Inr [sneaker, boot, slipper] \<and>
   sandal \<notin> set [sneaker, boot, slipper] \<and>
   fst (getProductsByCategoryAndFilter shop ''shoes'' ''price_desc'' None JUndefined) =
     Inr [boot, sneaker, slipper] \<and>
   sandal \<notin> set [boot, sneaker, slipper]"
  using null_discount_rate_excluded [of sandal shop "''shoes''" None JUndefined "''price_desc''"]
    shop_shoes_listing shop_shoes_price_desc
  by (simp add: shop_defs)

text \<open>
  C4. For a category name that no row of the category table carries, both
  category-scoped listings throw \<open>NotFoundCategoryException\<close> after the category lookup
  alone: no product query is sent, and the outcome does not depend on the product rows.
\<close>

theorem missing_category_fails_first:
  "cname \<notin> categoryName ` set (category_rows db) \<Longrightarrow>
     getProductsByCategory db cname userId flag =
       (Inl NotFoundCategoryException, [category_findUnique cname]) \<and>
     getProductsByCategoryAndFilter db cname token userId flag =
       (Inl NotFoundCategoryException, [category_findUnique cname]) \<and>
     getProductsByCategory (db\<lparr>product_rows := rows\<rparr>) cname userId flag =
       getProductsByCategory db cname userId flag \<and>
     getProductsByCategoryAndFilter (db\<lparr>product_rows := rows\<rparr>) cname token userId flag =
       getProductsByCategoryAndFilter db cname token userId flag"
proof -
  assume absent: "cname \<notin> categoryName ` set (category_rows db)"
  then have none: "prisma_category_findUnique db cname = None"
    by (simp add: category_findUnique_None_iff)
  from absent have none': "prisma_category_findUnique (db\<lparr>product_rows := rows\<rparr>) cname = None"
    by (simp add: category_findUnique_None_iff)
  show ?thesis
    by (simp add: getProductsByCategory_def getProductsByCategoryAndFilter_def none none')
qed

theorem missing_category_fails_first_witness:
  "''hats'' \<notin> categoryName ` set (category_rows shop) \<and>
   getProductsByCategory shop ''hats'' None (JBoolean False) =
     (Inl NotFoundCategoryException, [category_findUnique ''hats'']) \<and>
   getProductsByCategoryAndFilter shop ''hats'' ''price_asc'' None (JBoolean False) =
     (Inl NotFoundCategoryException, [category_findUnique ''hats'']) \<and>
   getProductsByCategory (shop\<lparr>product_rows := []\<rparr>) ''hats'' None (JBoolean False) =
     getProductsByCategory shop ''hats'' None (JBoolean False)"
  using missing_category_fails_first
    [of "''hats''" shop None "JBoolean False" "''price_asc''" "[]"]
  by (simp add: shop_defs)

lemma filtered_listing_sorted:
  assumes "fst (getProductsByCategoryAndFilter db cname token u flag) = Inr ps"
    and "filter_orderBy token = Inr ob"
  shows "sorted_wrt (precedes ob) ps"
proof -
  from getProductsByCategoryAndFilter_Inr [OF assms(1)] assms(2)
  have "ps = prisma_product_findMany db
      \<lparr>whereCondition = category_where cname flag, orderBy = Some ob, take_limit = None\<rparr>"
    by auto
  then show ?thesis
    by (simp add: prisma_product_findMany_def limited_None sorted_ordered)
qed

lemma filtered_listing_queries:
  assumes "prisma_category_findUnique db cname \<noteq> None" and "filter_orderBy token = Inr ob"
  shows "snd (getProductsByCategoryAndFilter db cname token u flag) =
    [category_findUnique cname,
     product_findMany \<lparr>whereCondition = category_where cname flag, orderBy = Some ob,
       take_limit = None\<rparr>]"
  using assms by (auto simp: getProductsByCategoryAndFilter_def Let_def)

lemma filter_orderBy_unknown:
  "token \<notin> {''discountRate_desc'', ''price_asc'', ''price_desc''} \<Longrightarrow>
     filter_orderBy token = Inl NotFoundCategoryFilterException"
  by (simp add: filter_orderBy_def)

text \<open>
  C5. The filter token is matched exactly against \<open>discountRate_desc\<close>, \<open>price_asc\<close> and
  \<open>price_desc\<close>, which give the orderings (discountRate, desc), (currentPrice, asc) and
  (currentPrice, desc): with an existing category, the product query carries that ordering
  and the rows returned are sorted by it. Any other token makes the filtered listing throw
  \<open>NotFoundCategoryFilterException\<close>, although the category exists, before a product query
  is sent.
\<close>

theorem filter_token_resolution:
  "filter_orderBy ''discountRate_desc'' = Inr (by_discountRate, desc) \<and>
   filter_orderBy ''price_asc'' = Inr (by_currentPrice, asc) \<and>
   filter_orderBy ''price_desc'' = Inr (by_currentPrice, desc) \<and>
   (cname \<in> categoryName ` set (category_rows db) \<longrightarrow>
      (\<forall>ob. filter_orderBy token = Inr ob \<longrightarrow>
         snd (getProductsByCategoryAndFilter db cname token userId flag) =
           [category_findUnique cname,
            product_findMany \<lparr>whereCondition = category_where cname flag, orderBy = Some ob,
              take_limit = None\<rparr>] \<and>
         (\<forall>ps. fst (getProductsByCategoryAndFilter db cname token userId flag) = Inr ps
            \<longrightarrow> sorted_wrt (precedes ob) ps)) \<and>
      (token \<notin> {''discountRate_desc'', ''price_asc'', ''price_desc''} \<longrightarrow>
         getProductsByCategoryAndFilter db cname token userId flag =
           (Inl NotFoundCategoryFilterException, [category_findUnique cname])))"
proof (intro conjI impI allI)
  show "filter_orderBy ''discountRate_desc'' = Inr (by_discountRate, desc)"
    by (simp add: filter_orderBy_def)
  show "filter_orderBy ''price_asc'' = Inr (by_currentPrice, asc)"
    by (simp add: filter_orderBy_def)
  show "filter_orderBy ''price_desc'' = Inr (by_currentPrice, desc)"
    by (simp add: filter_orderBy_def)
next
  fix ob
  assume "cname \<in> categoryName ` set (category_rows db)" and ob: "filter_orderBy token = Inr ob"
  then have "prisma_category_findUnique db cname \<noteq> None"
    by (simp add: category_findUnique_None_iff)
  from this ob show "snd (getProductsByCategoryAndFilter db cname token userId flag) =
      [category_findUnique cname,
       product_findMany \<lparr>whereCondition = category_where cname flag, orderBy = Some ob,
         take_limit = None\<rparr>]"
    by (rule filtered_listing_queries)
next
  fix ob ps
  assume "filter_orderBy token = Inr ob"
    and "fst (getProductsByCategoryAndFilter db cname token userId flag) = Inr ps"
  then show "sorted_wrt (precedes ob) ps"
    using filtered_listing_sorted by blast
next
  assume "cname \<in> categoryName ` set (category_rows db)"
    and "token \<notin> {''discountRate_desc'', ''price_asc'', ''price_desc''}"
  then have "prisma_category_findUnique db cname \<noteq> None"
    and "filter_orderBy token = Inl NotFoundCategoryFilterException"
    by (simp_all add: category_findUnique_None_iff filter_orderBy_unknown)
  then show "getProductsByCategoryAndFilter db cname token userId flag =
      (Inl NotFoundCategoryFilterException, [category_findUnique cname])"
    by (auto simp: getProductsByCategoryAndFilter_def)
qed

theorem filter_token_resolution_witness:
  "''shoes'' \<in> categoryName ` set (category_rows shop) \<and>
   ''price_bogus'' \<notin> {''discountRate_desc'', ''price_asc'', ''price_desc''} \<and>
   getProductsByCategoryAndFilter shop ''shoes'' ''price_bogus'' None JUndefined =
     (Inl NotFoundCategoryFilterException, [category_findUnique ''shoes'']) \<and>
   filter_orderBy ''price_desc'' = Inr (by_currentPrice, desc) \<and>
   snd (getProductsByCategoryAndFilter shop ''shoes'' ''price_desc'' None JUndefined) =
     [category_findUnique ''shoes'',
      product_findMany \<lparr>whereCondition = category_where ''shoes'' JUndefined,
        orderBy = Some (by_currentPrice, desc), take_limit = None\<rparr>] \<and>
   fst (getProductsByCategoryAndFilter shop ''shoes'' ''price_desc'' None JUndefined) =
     Inr [boot, sneaker, slipper] \<and>
   sorted_wrt (precedes (by_currentPrice, desc)) [boot, sneaker, slipper]"
  using filter_token_resolution [of "''shoes''" shop "''price_bogus''" None JUndefined]
    filter_token_resolution [of "''shoes''" shop "''price_desc''" None JUndefined]
    shop_shoes_price_desc
  by (simp add: shop_defs)

lemma top10_rows:
  "p \<in> set (prisma_product_findMany db top10_args) \<Longrightarrow>
     p \<in> set (product_rows db) \<and> discountRate p \<noteq> Some 0 \<and> discountRate p \<noteq> None \<and>
     \<not> isOutOfStock p"
  using findMany_member [of p db top10_args] by (simp add: matches_top10)

lemma top10_length: "length (prisma_product_findMany db top10_args) \<le> 10"
  by (simp add: prisma_product_findMany_def top10_args_def limited_def)

lemma top10_sorted:
  "sorted_wrt (\<lambda>p q. discountRate q \<le> discountRate p) (prisma_product_findMany db top10_args)"
proof -
  let ?rows = "filter (matches (whereCondition top10_args)) (product_rows db)"
  have "sorted_wrt (precedes (by_discountRate, desc)) (ordered (Some (by_discountRate, desc)) ?rows)"
    by (rule sorted_ordered)
  then have "sorted_wrt (precedes (by_discountRate, desc))
      (take 10 (ordered (Some (by_discountRate, desc)) ?rows))"
    by (rule sorted_wrt_take)
  moreover have "precedes (by_discountRate, desc) = (\<lambda>p q. discountRate q \<le> discountRate p)"
    by (intro ext) simp
  ultimately show ?thesis
    by (simp add: prisma_product_findMany_def top10_args_def limited_def)
qed

lemma top10_empty_iff:
  "prisma_product_findMany db top10_args = [] \<longleftrightarrow>
     (\<forall>p \<in> set (product_rows db).
        discountRate p = Some 0 \<or> discountRate p = None \<or> isOutOfStock p)"
proof -
  have "take_limit top10_args \<noteq> Some 0" by (simp add: top10_args_def)
  then show ?thesis
    using findMany_empty_iff [of db top10_args] by (auto simp: matches_top10)
qed

text \<open>
  C6. \<open>getTop10Products\<close> returns at most 10 products; each of them is a row of the store
  whose discount rate is neither 0 nor \<open>NULL\<close> and which is in stock; the result is sorted
  by discount rate, descending; and the method throws \<open>NotFoundProductException\<close>, and no
  other exception, exactly when the capped result is empty, which is when no row of the
  store satisfies the predicate.
\<close>

theorem top10_listing:
  "(\<forall>ps. fst (getTop10Products db userId) = Inr ps \<longrightarrow>
      ps \<noteq> [] \<and> length ps \<le> 10 \<and>
      (\<forall>p \<in> set ps. p \<in> set (product_rows db) \<and> discountRate p \<noteq> Some 0 \<and>
         discountRate p \<noteq> None \<and> \<not> isOutOfStock p) \<and>
      sorted_wrt (\<lambda>p q. discountRate q \<le> discountRate p) ps) \<and>
   (\<forall>e. fst (getTop10Products db userId) = Inl e \<longrightarrow> e = NotFoundProductException) \<and>
   (fst (getTop10Products db userId) = Inl NotFoundProductException \<longleftrightarrow>
      prisma_product_findMany db top10_args = []) \<and>
   (fst (getTop10Products db userId) = Inl NotFoundProductException \<longleftrightarrow>
      (\<forall>p \<in> set (product_rows db).
         discountRate p = Some 0 \<or> discountRate p = None \<or> isOutOfStock p))"
proof -
  let ?rows = "prisma_product_findMany db top10_args"
  have res: "fst (getTop10Products db userId) =
      (if ?rows = [] then Inl NotFoundProductException else Inr ?rows)"
    by (simp add: getTop10Products_def)
  have a: "ps \<noteq> [] \<and> length ps \<le> 10 \<and>
      (\<forall>p \<in> set ps. p \<in> set (product_rows db) \<and> discountRate p \<noteq> Some 0 \<and>
         discountRate p \<noteq> None \<and> \<not> isOutOfStock p) \<and>
      sorted_wrt (\<lambda>p q. discountRate q \<le> discountRate p) ps"
    if "fst (getTop10Products db userId) = Inr ps" for ps
  proof -
    from that res have "ps = ?rows" and "ps \<noteq> []" by (auto split: if_splits)
    then show ?thesis using top10_rows [of _ db] top10_length [of db] top10_sorted [of db]
      by blast
  qed
  have b: "e = NotFoundProductException" if "fst (getTop10Products db userId) = Inl e" for e
    using that res by (auto split: if_splits)
  have c: "fst (getTop10Products db userId) = Inl NotFoundProductException \<longleftrightarrow> ?rows = []"
    using res by simp
  from a b c top10_empty_iff [of db] show ?thesis by blast
qed

lemma shop_top10: "fst (getTop10Products shop None) = Inr [sneaker]"
  by (simp add: getTop10Products_def prisma_product_findMany_def limited_def ordered_def
      sort_by_def matches_def top10_args_def shop_defs)

theorem top10_listing_witness:
  "fst (getTop10Products shop None) = Inr [sneaker] \<and> length [sneaker] \<le> 10 \<and>
   discountRate sneaker \<noteq> Some 0 \<and> discountRate sneaker \<noteq> None \<and> \<not> isOutOfStock sneaker \<and>
   fst (getTop10Products (shop\<lparr>product_rows := [sandal, boot, slipper]\<rparr>) None) =
     Inl NotFoundProductException \<and>
   discountRate sandal = None \<and> isOutOfStock boot \<and> discountRate slipper = Some 0"
proof -
  let ?none = "shop\<lparr>product_rows := [sandal, boot, slipper]\<rparr>"
  have "\<forall>p \<in> set (product_rows ?none).
      discountRate p = Some 0 \<or> discountRate p = None \<or> isOutOfStock p"
    by (simp add: shop_defs)
  with top10_listing [of ?none None]
  have "fst (getTop10Products ?none None) = Inl NotFoundProductException" by blast
  with top10_listing [of shop None] shop_top10 show ?thesis
    by (simp add: shop_defs)
qed

text \<open>
  C7. \<open>getAllProducts\<close> always returns a list and never throws, also when no row matches
  (the list is then empty). \<open>getProductsByCategory\<close> and, with a known filter token,
  \<open>getProductsByCategoryAndFilter\<close> throw \<open>NotFoundProductException\<close> when the category
  exists and no row matches the condition; that exception is not
  \<open>NotFoundCategoryException\<close>.
\<close>

theorem empty_result_policy:
  "(\<exists>ps. fst (getAllProducts db userId flag) = Inr ps) \<and>
   ((\<forall>p \<in> set (product_rows db). \<not> matches (getAllProducts_where flag) p) \<longrightarrow>
      fst (getAllProducts db userId flag) = Inr []) \<and>
   (cname \<in> categoryName ` set (category_rows db) \<and>
    (\<forall>p \<in> set (product_rows db). \<not> matches (category_where cname flag) p) \<longrightarrow>
      fst (getProductsByCategory db cname userId flag) = Inl NotFoundProductException \<and>
      (token \<in> {''discountRate_desc'', ''price_asc'', ''price_desc''} \<longrightarrow>
         fst (getProductsByCategoryAndFilter db cname token userId flag) =
           Inl NotFoundProductException)) \<and>
   NotFoundProductException \<noteq> NotFoundCategoryException"
proof (intro conjI impI)
  show "\<exists>ps. fst (getAllProducts db userId flag) = Inr ps"
    by (simp add: getAllProducts_def Let_def)
next
  assume "\<forall>p \<in> set (product_rows db). \<not> matches (getAllProducts_where flag) p"
  then have "prisma_product_findMany db
      \<lparr>whereCondition = getAllProducts_where flag, orderBy = None, take_limit = None\<rparr> = []"
    by (simp add: findMany_empty_iff)
  then show "fst (getAllProducts db userId flag) = Inr []"
    by (simp add: getAllProducts_def Let_def)
next
  assume a: "cname \<in> categoryName ` set (category_rows db) \<and>
    (\<forall>p \<in> set (product_rows db). \<not> matches (category_where cname flag) p)"
  then have cat: "prisma_category_findUnique db cname \<noteq> None"
    by (simp add: category_findUnique_None_iff)
  from a have "prisma_product_findMany db
      \<lparr>whereCondition = category_where cname flag, orderBy = None, take_limit = None\<rparr> = []"
    by (simp add: findMany_empty_iff)
  with cat show "fst (getProductsByCategory db cname userId flag) = Inl NotFoundProductException"
    by (auto simp: getProductsByCategory_def)
next
  assume a: "cname \<in> categoryName ` set (category_rows db) \<and>
    (\<forall>p \<in> set (product_rows db). \<not> matches (category_where cname flag) p)"
    and t: "token \<in> {''discountRate_desc'', ''price_asc'', ''price_desc''}"
  from a have cat: "prisma_category_findUnique db cname \<noteq> None"
    by (simp add: category_findUnique_None_iff)
  from t obtain ob where ob: "filter_orderBy token = Inr ob"
    by (auto simp: filter_orderBy_def)
  from a have "prisma_product_findMany db
      \<lparr>whereCondition = category_where cname flag, orderBy = Some ob, take_limit = None\<rparr> = []"
    by (simp add: findMany_empty_iff)
  with cat ob show "fst (getProductsByCategoryAndFilter db cname token userId flag) =
      Inl NotFoundProductException"
    by (auto simp: getProductsByCategoryAndFilter_def)
next
  show "NotFoundProductException \<noteq> NotFoundCategoryException" by simp
qed

theorem empty_result_policy_witness:
  "fst (getAllProducts (shop\<lparr>product_rows := []\<rparr>) None JUndefined) = Inr [] \<and>
   ''bags'' \<in> categoryName ` set (category_rows shop) \<and>
   list_all (\<lambda>p. \<not> matches (category_where ''bags'' JUndefined) p) (product_rows shop) \<and>
   fst (getProductsByCategory shop ''bags'' None JUndefined) = Inl NotFoundProductException \<and>
   fst (getProductsByCategoryAndFilter shop ''bags'' ''price_asc'' None JUndefined) =
     Inl NotFoundProductException \<and>
   fst (getProductsByCategory shop ''hats'' None JUndefined) = Inl NotFoundCategoryException"
proof -
  have no_bags: "list_all (\<lambda>p. \<not> matches (category_where ''bags'' JUndefined) p) (product_rows shop)"
    by (simp add: matches_category_where shop_defs)
  then have "\<forall>p \<in> set (product_rows shop). \<not> matches (category_where ''bags'' JUndefined) p"
    by (simp add: list_all_iff)
  moreover have bags: "''bags'' \<in> categoryName ` set (category_rows shop)"
    by (simp add: shop_defs)
  moreover have "fst (getProductsByCategory shop ''hats'' None JUndefined) =
      Inl NotFoundCategoryException"
    by (simp add: getProductsByCategory_def prisma_category_findUnique_def shop_defs)
  ultimately show ?thesis
    using empty_result_policy [of "shop\<lparr>product_rows := []\<rparr>" None JUndefined]
      empty_result_policy [of shop None JUndefined "''bags''" "''price_asc''"] no_bags
    by simp
qed

lemma getAllProducts_wheres:
  "product_wheres (snd (getAllProducts db u flag)) =
     [if flag = JBoolean False then [isOutOfStock_is False] else []]"
  by (simp add: getAllProducts_def Let_def getAllProducts_where_def strict_equals_false_iff)

lemma category_where_explicit:
  "category_where cname flag =
     [AND ([ProductCategory_some_Category_categoryName cname, NOT [discountRate_is None]] #
           (if flag = JBoolean False then [[isOutOfStock_is False]] else []))]"
  by (simp add: category_where_def baseCondition_def additionalCondition_def
      strict_equals_false_iff)

lemma getProductsByCategory_wheres:
  "cname \<in> categoryName ` set (category_rows db) \<Longrightarrow>
     product_wheres (snd (getProductsByCategory db cname u flag)) = [category_where cname flag]"
proof -
  assume "cname \<in> categoryName ` set (category_rows db)"
  then have "prisma_category_findUnique db cname \<noteq> None"
    by (simp add: category_findUnique_None_iff)
  then show ?thesis by (auto simp: getProductsByCategory_def Let_def)
qed

lemma known_token:
  "token \<in> {''discountRate_desc'', ''price_asc'', ''price_desc''} \<Longrightarrow>
     \<exists>ob. filter_orderBy token = Inr ob"
  by (auto simp: filter_orderBy_def)

lemma getProductsByCategoryAndFilter_wheres:
  assumes "cname \<in> categoryName ` set (category_rows db)"
    and "token \<in> {''discountRate_desc'', ''price_asc'', ''price_desc''}"
  shows "product_wheres (snd (getProductsByCategoryAndFilter db cname token u flag)) =
    [category_where cname flag]"
proof -
  from assms(1) have "prisma_category_findUnique db cname \<noteq> None"
    by (simp add: category_findUnique_None_iff)
  moreover from assms(2) obtain ob where "filter_orderBy token = Inr ob"
    using known_token by blast
  ultimately show ?thesis by (simp add: filtered_listing_queries)
qed

lemma getAllProducts_rows:
  "fst (getAllProducts db u flag) =
     Inr (if flag = JBoolean False then filter (\<lambda>p. \<not> isOutOfStock p) (product_rows db)
          else product_rows db)"
  by (simp add: getAllProducts_def Let_def prisma_product_findMany_def limited_def ordered_def
      getAllProducts_where_def strict_equals_false_iff matches_def cong: filter_cong)

lemma category_listing_includes:
  assumes cat: "cname \<in> categoryName ` set (category_rows db)"
    and row: "p \<in> set (product_rows db)"
    and m: "matches (category_where cname flag) p"
  shows "\<exists>ps. fst (getProductsByCategory db cname u flag) = Inr ps \<and> p \<in> set ps"
proof -
  let ?args = "\<lparr>whereCondition = category_where cname flag, orderBy = None, take_limit = None\<rparr>"
  from cat have "prisma_category_findUnique db cname \<noteq> None"
    by (simp add: category_findUnique_None_iff)
  moreover from row m have "p \<in> set (prisma_product_findMany db ?args)"
    by (simp add: findMany_unlimited)
  ultimately show ?thesis
    by (auto simp: getProductsByCategory_def Let_def)
qed

lemma filtered_listing_includes:
  assumes cat: "cname \<in> categoryName ` set (category_rows db)"
    and tok: "token \<in> {''discountRate_desc'', ''price_asc'', ''price_desc''}"
    and row: "p \<in> set (product_rows db)"
    and m: "matches (category_where cname flag) p"
  shows "\<exists>ps. fst (getProductsByCategoryAndFilter db cname token u flag) = Inr ps \<and> p \<in> set ps"
proof -
  from tok obtain ob where ob: "filter_orderBy token = Inr ob"
    using known_token by blast
  let ?args = "\<lparr>whereCondition = category_where cname flag, orderBy = Some ob,
    take_limit = None\<rparr>"
  from cat have "prisma_category_findUnique db cname \<noteq> None"
    by (simp add: category_findUnique_None_iff)
  moreover from row m have "p \<in> set (prisma_product_findMany db ?args)"
    by (simp add: findMany_unlimited)
  ultimately show ?thesis using ob
    by (auto simp: getProductsByCategoryAndFilter_def Let_def)
qed

lemma category_listing_in_stock:
  assumes "fst (getProductsByCategory db cname u (JBoolean False)) = Inr ps" and "p \<in> set ps"
  shows "\<not> isOutOfStock p"
  using getProductsByCategory_Inr [OF assms(1)] assms(2)
    category_listing_member [of p db cname "JBoolean False" None]
  by simp

lemma filtered_listing_in_stock:
  assumes "fst (getProductsByCategoryAndFilter db cname token u (JBoolean False)) = Inr ps"
    and "p \<in> set ps"
  shows "\<not> isOutOfStock p"
proof -
  from getProductsByCategoryAndFilter_Inr [OF assms(1)] obtain ob where
    "ps = prisma_product_findMany db \<lparr>whereCondition = category_where cname (JBoolean False),
       orderBy = Some ob, take_limit = None\<rparr>"
    by blast
  with assms(2) category_listing_member [of p db cname "JBoolean False" "Some ob"]
  show ?thesis by simp
qed

text \<open>
  C2. In \<open>getAllProducts\<close>, \<open>getProductsByCategory\<close> and
  \<open>getProductsByCategoryAndFilter\<close> the \<open>where\<close> object of the product query holds the
  clause \<open>isOutOfStock: false\<close> if and only if the stock-visibility argument is the boolean
  \<open>false\<close>. For every other value no stock constraint is present: \<open>getAllProducts\<close> returns
  every row, and an out-of-stock product that matches the rest of the condition is in the
  result of the category listings. For \<open>false\<close> every returned product is in stock.
\<close>

theorem stock_clause_iff_false:
  "product_wheres (snd (getAllProducts db userId flag)) =
     [if flag = JBoolean False then [isOutOfStock_is False] else []] \<and>
   (cname \<in> categoryName ` set (category_rows db) \<longrightarrow>
      product_wheres (snd (getProductsByCategory db cname userId flag)) =
        [[AND ([ProductCategory_some_Category_categoryName cname, NOT [discountRate_is None]] #
               (if flag = JBoolean False then [[isOutOfStock_is False]] else []))]] \<and>
      (token \<in> {''discountRate_desc'', ''price_asc'', ''price_desc''} \<longrightarrow>
         product_wheres (snd (getProductsByCategoryAndFilter db cname token userId flag)) =
           [[AND ([ProductCategory_some_Category_categoryName cname,
                   NOT [discountRate_is None]] #
                  (if flag = JBoolean False then [[isOutOfStock_is False]] else []))]])) \<and>
   (flag \<noteq> JBoolean False \<longrightarrow>
      fst (getAllProducts db userId flag) = Inr (product_rows db) \<and>
      (cname \<in> categoryName ` set (category_rows db) \<and> p \<in> set (product_rows db) \<and>
       isOutOfStock p \<and> discountRate p \<noteq> None \<and>
       list_ex (\<lambda>c. categoryName c = cname) (ProductCategory p) \<longrightarrow>
         (\<exists>ps. fst (getProductsByCategory db cname userId flag) = Inr ps \<and> p \<in> set ps) \<and>
         (token \<in> {''discountRate_desc'', ''price_asc'', ''price_desc''} \<longrightarrow>
            (\<exists>ps. fst (getProductsByCategoryAndFilter db cname token userId flag) = Inr ps \<and>
               p \<in> set ps)))) \<and>
   (flag = JBoolean False \<longrightarrow>
      fst (getAllProducts db userId flag) =
        Inr (filter (\<lambda>p. \<not> isOutOfStock p) (product_rows db)) \<and>
      (\<forall>ps. fst (getProductsByCategory db cname userId flag) = Inr ps \<longrightarrow>
         (\<forall>p \<in> set ps. \<not> isOutOfStock p)) \<and>
      (\<forall>ps. fst (getProductsByCategoryAndFilter db cname token userId flag) = Inr ps \<longrightarrow>
         (\<forall>p \<in> set ps. \<not> isOutOfStock p)))"
proof (intro conjI impI allI ballI)
  show "product_wheres (snd (getAllProducts db userId flag)) =
      [if flag = JBoolean False then [isOutOfStock_is False] else []]"
    by (rule getAllProducts_wheres)
next
  assume "cname \<in> categoryName ` set (category_rows db)"
  then show "product_wheres (snd (getProductsByCategory db cname userId flag)) =
      [[AND ([ProductCategory_some_Category_categoryName cname, NOT [discountRate_is None]] #
             (if flag = JBoolean False then [[isOutOfStock_is False]] else []))]]"
    by (simp only: getProductsByCategory_wheres category_where_explicit)
next
  assume "cname \<in> categoryName ` set (category_rows db)"
    and "token \<in> {''discountRate_desc'', ''price_asc'', ''price_desc''}"
  then show "product_wheres (snd (getProductsByCategoryAndFilter db cname token userId flag)) =
      [[AND ([ProductCategory_some_Category_categoryName cname, NOT [discountRate_is None]] #
             (if flag = JBoolean False then [[isOutOfStock_is False]] else []))]]"
    by (simp only: getProductsByCategoryAndFilter_wheres category_where_explicit)
next
  assume "flag \<noteq> JBoolean False"
  then show "fst (getAllProducts db userId flag) = Inr (product_rows db)"
    by (simp add: getAllProducts_rows)
next
  assume f: "flag \<noteq> JBoolean False"
    and a: "cname \<in> categoryName ` set (category_rows db) \<and> p \<in> set (product_rows db) \<and>
      isOutOfStock p \<and> discountRate p \<noteq> None \<and>
      list_ex (\<lambda>c. categoryName c = cname) (ProductCategory p)"
  then have m: "matches (category_where cname flag) p"
    by (simp add: matches_category_where)
  with a show "\<exists>ps. fst (getProductsByCategory db cname userId flag) = Inr ps \<and> p \<in> set ps"
    by (simp add: category_listing_includes)
  assume "token \<in> {''discountRate_desc'', ''price_asc'', ''price_desc''}"
  with a m show "\<exists>ps. fst (getProductsByCategoryAndFilter db cname token userId flag) = Inr ps \<and>
      p \<in> set ps"
    by (simp only: filtered_listing_includes)
next
  assume "flag = JBoolean False"
  then show "fst (getAllProducts db userId flag) =
      Inr (filter (\<lambda>p. \<not> isOutOfStock p) (product_rows db))"
    by (simp add: getAllProducts_rows)
next
  fix ps q
  assume "flag = JBoolean False"
    and "fst (getProductsByCategory db cname userId flag) = Inr ps" and "q \<in> set ps"
  then show "\<not> isOutOfStock q"
    using category_listing_in_stock by blast
next
  fix ps q
  assume "flag = JBoolean False"
    and "fst (getProductsByCategoryAndFilter db cname token userId flag) = Inr ps"
    and "q \<in> set ps"
  then show "\<not> isOutOfStock q"
    using filtered_listing_in_stock by blast
qed

lemma shop_shoes_in_stock:
  "fst (getProductsByCategory shop ''shoes'' None (JBoolean False)) = Inr [sneaker, slipper]"
  by (simp add: getProductsByCategory_def prisma_category_findUnique_def
      prisma_product_findMany_def limited_def ordered_def matches_def category_where_def
      baseCondition_def additionalCondition_def shop_defs)

theorem stock_clause_iff_false_witness:
  "JString ''false'' \<noteq> JBoolean False \<and>
   ''shoes'' \<in> categoryName ` set (category_rows shop) \<and> boot \<in> set (product_rows shop) \<and>
   isOutOfStock boot \<and> discountRate boot \<noteq> None \<and>
   list_ex (\<lambda>c. categoryName c = ''shoes'') (ProductCategory boot) \<and>
   fst (getAllProducts shop None (JString ''false'')) = Inr (product_rows shop) \<and>
   product_wheres (snd (getProductsByCategory shop ''shoes'' None JUndefined)) =
     [[AND [[ProductCategory_some_Category_categoryName ''shoes'',
             NOT [discountRate_is None]]]]] \<and>
   fst (getProductsByCategory shop ''shoes'' None JUndefined) = Inr [sneaker, boot, slipper] \<and>
   boot \<in> set [sneaker, boot, slipper] \<and>
   product_wheres (snd (getProductsByCategory shop ''shoes'' None (JBoolean False))) =
     [[AND [[ProductCategory_some_Category_categoryName ''shoes'', NOT [discountRate_is None]],
            [isOutOfStock_is False]]]] \<and>
   fst (getProductsByCategory shop ''shoes'' None (JBoolean False)) = Inr [sneaker, slipper] \<and>
   \<not> isOutOfStock sneaker \<and> \<not> isOutOfStock slipper"
proof -
  note absent = stock_clause_iff_false [of shop None JUndefined "''shoes''" "''price_asc''" boot]
  note false = stock_clause_iff_false
    [of shop None "JBoolean False" "''shoes''" "''price_asc''" boot]
  have cat: "''shoes'' \<in> categoryName ` set (category_rows shop)"
    by (simp add: shop_defs)
  have "fst (getAllProducts shop None (JString ''false'')) = Inr (product_rows shop)"
    using stock_clause_iff_false [of shop None "JString ''false''", THEN conjunct2,
        THEN conjunct2, THEN conjunct1]
    by simp
  moreover have "product_wheres (snd (getProductsByCategory shop ''shoes'' None JUndefined)) =
      [[AND [[ProductCategory_some_Category_categoryName ''shoes'',
              NOT [discountRate_is None]]]]]"
    using absent [THEN conjunct2, THEN conjunct1] cat by simp
  moreover have "product_wheres
      (snd (getProductsByCategory shop ''shoes'' None (JBoolean False))) =
      [[AND [[ProductCategory_some_Category_categoryName ''shoes'', NOT [discountRate_is None]],
             [isOutOfStock_is False]]]]"
    using false [THEN conjunct2, THEN conjunct1] cat by simp
  moreover have "boot \<in> set (product_rows shop) \<and> isOutOfStock boot \<and>
      discountRate boot \<noteq> None \<and>
      list_ex (\<lambda>c. categoryName c = ''shoes'') (ProductCategory boot) \<and>
      \<not> isOutOfStock sneaker \<and> \<not> isOutOfStock slipper"
    by (simp add: shop_defs)
  ultimately show ?thesis
    using cat shop_shoes_listing shop_shoes_in_stock by simp
qed

text \<open>
  C3. In the category listing with a cursor, every product returned has an identifier
  strictly greater than the cursor, and the result is the uncursored selection restricted
  to those products; without a cursor the listing is the outcome of the repository's
  \<open>getProductsByCategory\<close>, with no constraint on the identifiers.
\<close>

theorem cursor_constrains_listing:
  "(\<forall>c ps. listByCategory db cname userId (Some c) flag = Inr ps \<longrightarrow>
      (\<forall>p \<in> set ps. c < productId p) \<and>
      ps = filter (\<lambda>p. c < productId p)
             (filter (matches (category_where cname flag)) (product_rows db))) \<and>
   listByCategory db cname userId None flag = fst (getProductsByCategory db cname userId flag)"
proof (intro conjI allI impI)
  fix c ps
  assume "listByCategory db cname userId (Some c) flag = Inr ps"
  then have ps: "ps = filter (\<lambda>p. c < productId p)
      (filter (matches (category_where cname flag)) (product_rows db))"
    by (auto simp: listByCategory_def Let_def split: option.splits if_splits)
  then show "ps = filter (\<lambda>p. c < productId p)
      (filter (matches (category_where cname flag)) (product_rows db))" .
  from ps show "\<forall>p \<in> set ps. c < productId p" by simp
next
  show "listByCategory db cname userId None flag =
      fst (getProductsByCategory db cname userId flag)"
    by (simp add: listByCategory_def getProductsByCategory_def Let_def
        prisma_product_findMany_def limited_def ordered_def split: option.splits)
qed

theorem cursor_constrains_listing_witness:
  "listByCategory shop ''shoes'' None (Some 1) JUndefined = Inr [boot, slipper] \<and>
   1 < productId boot \<and> 1 < productId slipper \<and>
   listByCategory shop ''shoes'' None None JUndefined = Inr [sneaker, boot, slipper] \<and>
   fst (getProductsByCategory shop ''shoes'' None JUndefined) = Inr [sneaker, boot, slipper]"
proof -
  have "listByCategory shop ''shoes'' None (Some 1) JUndefined = Inr [boot, slipper]"
    by (simp add: listByCategory_def prisma_category_findUnique_def matches_def
        category_where_def baseCondition_def additionalCondition_def shop_defs)
  with cursor_constrains_listing [of shop "''shoes''" None JUndefined] shop_shoes_listing
  show ?thesis by (simp add: shop_defs)
qed

lemmas parse_defs = StringToNumber_def trim_def is_StrWhiteSpaceChar_def non_decimal_base_def
  StrUnsignedDecimalLiteral_def unsigned_decimal_def decimal_mantissa_def SignedInteger_def
  is_digit_def digit_value_def digits_value_def pow10_def

lemma ToBoolean_False_iff: "\<not> ToBoolean n \<longleftrightarrow> n = NaN \<or> n = Finite 0"
  by (cases n) auto

lemma Number_absent: "Number_js None = NaN"
  by (simp add: Number_js_def)

lemma Number_empty: "Number_js (Some '''') = Finite 0"
  by (simp add: Number_js_def parse_defs)

lemma Number_abc: "Number_js (Some ''abc'') = NaN"
  by (simp add: Number_js_def parse_defs)

lemma Number_zero: "Number_js (Some ''0'') = Finite 0"
  by (simp add: Number_js_def parse_defs RoundMVResult_def)

lemma floor_log2_42: "floor_log2 42 = 5"
  by code_simp

lemma floor_log2_3_2: "floor_log2 (3 / 2) = 0"
  by code_simp

lemma Number_42: "Number_js (Some ''42'') = Finite 42"
  by (simp add: Number_js_def parse_defs RoundMVResult_def floor_log2_42 pow2_def
      round_half_even_def)

lemma Number_1_5: "Number_js (Some ''1.5'') = Finite (3 / 2)"
  by (simp add: Number_js_def parse_defs RoundMVResult_def floor_log2_3_2 pow2_def
      round_half_even_def)

text \<open>
  C8. In both category routes the cursor string is converted with \<open>Number\<close>; the number is
  passed downstream if and only if it is truthy, that is neither \<open>NaN\<close> nor zero, and
  \<open>null\<close> is passed otherwise: for an absent parameter, for the empty string, for a string
  that is not a numeric literal and for a string that denotes zero. The number passed is
  the value of \<open>Number\<close> itself; it is not made an integer.
\<close>

theorem lastId_coercion:
  "(lastId s = None \<longleftrightarrow> Number_js s = NaN \<or> Number_js s = Finite 0) \<and>
   (\<forall>n. lastId s = Some n \<longrightarrow> n = Number_js s \<and> ToBoolean n) \<and>
   lastId None = None \<and> lastId (Some '''') = None \<and> lastId (Some ''abc'') = None \<and>
   lastId (Some ''0'') = None \<and> lastId (Some ''42'') = Some (Finite 42)"
proof (intro conjI allI impI)
  show "lastId s = None \<longleftrightarrow> Number_js s = NaN \<or> Number_js s = Finite 0"
    by (cases "Number_js s") (auto simp: lastId_def)
next
  fix n
  assume "lastId s = Some n"
  then show "n = Number_js s" and "ToBoolean n"
    by (auto simp: lastId_def split: if_splits)
next
  show "lastId None = None" by (simp add: lastId_def Number_absent)
  show "lastId (Some '''') = None" by (simp add: lastId_def Number_empty)
  show "lastId (Some ''abc'') = None" by (simp add: lastId_def Number_abc)
  show "lastId (Some ''0'') = None" by (simp add: lastId_def Number_zero)
  show "lastId (Some ''42'') = Some (Finite 42)" by (simp add: lastId_def Number_42)
qed

theorem lastId_coercion_witness:
  "lastId (Some ''1.5'') = Some (Finite (3 / 2)) \<and> Number_js (Some ''1.5'') = Finite (3 / 2) \<and>
   ToBoolean (Finite (3 / 2))"
proof -
  have passed: "lastId (Some ''1.5'') = Some (Finite (3 / 2))"
    by (simp add: lastId_def Number_1_5)
  note same = lastId_coercion [of "Some ''1.5''", THEN conjunct2, THEN conjunct1,
      rule_format, OF passed]
  from same have "Number_js (Some ''1.5'') = Finite (3 / 2)"
    by (rule conjunct1 [THEN sym])
  moreover from same have "ToBoolean (Finite (3 / 2))"
    by (rule conjunct2)
  ultimately show ?thesis using passed by (intro conjI)
qed

lemma floor_3_2: "\<lfloor>3 / 2 :: rat\<rfloor> = 1"
  by (simp add: floor_eq_iff)

text \<open>
  The cursor is not always an integer: for the query string \<open>lastId=1.5\<close> the controller
  passes the number 1.5 downstream.
\<close>

theorem lastId_not_an_integer:
  "lastId (Some ''1.5'') = Some (Finite (3 / 2)) \<and> \<not> Number_isInteger (Finite (3 / 2))"
proof
  show "lastId (Some ''1.5'') = Some (Finite (3 / 2))"
    by (simp add: lastId_def Number_1_5)
  have "rat_of_int \<lfloor>3 / 2 :: rat\<rfloor> = 1"
    by (simp only: floor_3_2 of_int_1)
  then show "\<not> Number_isInteger (Finite (3 / 2))"
    by (simp del: of_int_floor_cancel)
qed

lemma find_Some_member: "find P xs = Some x \<Longrightarrow> x \<in> set xs \<and> P x"
  by (induction xs) (auto split: if_splits)

text \<open>
  C9. \<open>checkNotification\<close> sends one \<open>findFirst\<close> query and returns its result: a
  subscription row of the store that pairs the given user and product when there is one,
  and \<open>null\<close> exactly when there is none. The value returned is the row, not a boolean.
\<close>

theorem checkNotification_returns_row:
  "(fst (checkNotification db pid uid) = None \<longleftrightarrow>
      \<not> (\<exists>r \<in> set (userProduct_rows db). UserId r = uid \<and> ProductId r = pid)) \<and>
   (\<forall>r. fst (checkNotification db pid uid) = Some r \<longrightarrow>
      r \<in> set (userProduct_rows db) \<and> UserId r = uid \<and> ProductId r = pid) \<and>
   snd (checkNotification db pid uid) = [userProduct_findFirst uid pid]"
proof (intro conjI allI impI)
  show "fst (checkNotification db pid uid) = None \<longleftrightarrow>
      \<not> (\<exists>r \<in> set (userProduct_rows db). UserId r = uid \<and> ProductId r = pid)"
    by (simp add: checkNotification_def prisma_userProduct_findFirst_def find_None_iff Bex_def)
next
  fix r
  assume "fst (checkNotification db pid uid) = Some r"
  then have "find (\<lambda>r. UserId r = uid \<and> ProductId r = pid) (userProduct_rows db) = Some r"
    by (simp add: checkNotification_def prisma_userProduct_findFirst_def)
  then have "r \<in> set (userProduct_rows db) \<and> UserId r = uid \<and> ProductId r = pid"
    by (rule find_Some_member)
  then show "r \<in> set (userProduct_rows db)" and "UserId r = uid" and "ProductId r = pid"
    by simp_all
next
  show "snd (checkNotification db pid uid) = [userProduct_findFirst uid pid]"
    by (simp add: checkNotification_def)
qed

theorem checkNotification_returns_row_witness:
  "fst (checkNotification shop 1 7) = Some alert \<and> alert \<in> set (userProduct_rows shop) \<and>
   UserId alert = 7 \<and> ProductId alert = 1 \<and>
   fst (checkNotification shop 2 7) = None \<and>
   list_all (\<lambda>r. \<not> (UserId r = 7 \<and> ProductId r = 2)) (userProduct_rows shop)"
proof -
  have "fst (checkNotification shop 1 7) = Some alert"
    by (simp add: checkNotification_def prisma_userProduct_findFirst_def shop_defs)
  moreover from this
  have "alert \<in> set (userProduct_rows shop) \<and> UserId alert = 7 \<and> ProductId alert = 1"
    using checkNotification_returns_row [of shop 1 7, THEN conjunct2, THEN conjunct1]
    by blast
  moreover
  have none: "list_all (\<lambda>r. \<not> (UserId r = 7 \<and> ProductId r = 2)) (userProduct_rows shop)"
    by (simp add: shop_defs)
  moreover from none
  have "\<not> (\<exists>r \<in> set (userProduct_rows shop). UserId r = 7 \<and> ProductId r = 2)"
    by (simp add: list_all_iff)
  then have "fst (checkNotification shop 2 7) = None"
    using checkNotification_returns_row [of shop 2 7, THEN conjunct1] by blast
  ultimately show ?thesis by simp
qed

text \<open>
  The result is not a boolean that says whether a subscription exists: user 7 is subscribed
  to product 1 and user 8 to product 2, and the two checks give different results, each
  the row it found.
\<close>

theorem checkNotification_result_not_boolean:
  "alert \<in> set (userProduct_rows shop) \<and> UserId alert = 7 \<and> ProductId alert = 1 \<and>
   other_alert \<in> set (userProduct_rows shop) \<and>
   UserId other_alert = 8 \<and> ProductId other_alert = 2 \<and>
   fst (checkNotification shop 1 7) = Some alert \<and>
   fst (checkNotification shop 2 8) = Some other_alert \<and>
   fst (checkNotification shop 1 7) \<noteq> fst (checkNotification shop 2 8)"
  by (simp add: checkNotification_def prisma_userProduct_findFirst_def shop_defs)

text \<open>
  C10. In every read method of the repository the \<open>userId\<close> argument has no effect: two
  calls on the same store that differ only in \<open>userId\<close> (\<open>None\<close> for an anonymous caller)
  give the same outcome and send the same queries.
\<close>

theorem userId_has_no_effect:
  "getAllProducts db u1 flag = getAllProducts db u2 flag \<and>
   getTop10Products db u1 = getTop10Products db u2 \<and>
   getProductsByCategory db cname u1 flag = getProductsByCategory db cname u2 flag \<and>
   getProductsByCategoryAndFilter db cname token u1 flag =
     getProductsByCategoryAndFilter db cname token u2 flag \<and>
   getProductDetail db pid u1 = getProductDetail db pid u2"
  by (simp add: getAllProducts_def getTop10Products_def getProductsByCategory_def
      getProductsByCategoryAndFilter_def getProductDetail_def)

end
